theory Spec2Isabelle
  imports Complex_Main "HOL-Library.Word"
begin

unbundle bit_operations_syntax

section \<open>The BMS poll decoder of the MG EV vehicle module (mg\_poll\_bms.cpp)\<close>

text \<open>
  The development embeds the three member functions of \<^verbatim>\<open>mg_poll_bms.cpp\<close> that decode
  the responses of the battery management system, together with \<^verbatim>\<open>calculateSoc\<close>:
  \<^verbatim>\<open>ProcessBatteryStats\<close>, \<^verbatim>\<open>IncomingBmsPoll\<close> and \<^verbatim>\<open>SetBmsStatus\<close>.

  Conventions of the embedding.
  \<^item> \<^verbatim>\<open>uint8_t\<close> and \<^verbatim>\<open>uint16_t\<close> are \<open>8 word\<close> and \<open>16 word\<close>.
  \<^item> \<^verbatim>\<open>float\<close> and \<^verbatim>\<open>double\<close> values are idealised as \<open>real\<close>: the arithmetic of the
    source is kept expression by expression, its rounding to binary32/binary64, and the
    special values NaN and infinity, are outside the model.
  \<^item> The metric objects the functions write (\<^verbatim>\<open>StandardMetrics.ms_v_...\<close>, the members
    \<^verbatim>\<open>m_bat_pack_voltage\<close>, \<^verbatim>\<open>m_soc_raw\<close>) and the member \<^verbatim>\<open>m_bmsCache\<close> are the fields of
    one record, passed in and returned updated.
  \<^item> \<^verbatim>\<open>uint8_t* data\<close> is a pointer into a receive buffer: a function from offsets to
    bytes. The source never consults \<^verbatim>\<open>length\<close>.
\<close>

type_synonym u8 = "8 word"
type_synonym u16 = "16 word"

subsection \<open>Responses to the BMS status PID (the anonymous enum \<^verbatim>\<open>BmsStatus\<close>)\<close>

definition ConnectedNotCharging1 :: u8 where "ConnectedNotCharging1 = 0x0"
definition Idle :: u8 where "Idle = 0x1"
definition Running :: u8 where "Running = 0x3"
definition Charging :: u8 where "Charging = 0x6"
definition CcsCharging :: u8 where "CcsCharging = 0x7"
definition AboutToSleep :: u8 where "AboutToSleep = 0x8"
definition Connected :: u8 where "Connected = 0xa"
definition StartingCharge :: u8 where "StartingCharge = 0xc"

subsection \<open>The metrics store and the decoder's own state\<close>

text \<open>
  Modelled from the spec: the declaration of \<^verbatim>\<open>m_bmsCache\<close> (vehicle\_mgev.h) is not part
  of the source fragment; the spec describes it as a single byte of state holding the
  high byte of a 16-bit value, so it is an unsigned byte. The metric classes
  (\<^verbatim>\<open>OvmsMetricFloat\<close>, \<^verbatim>\<open>OvmsMetricBool\<close>, \<^verbatim>\<open>OvmsMetricString\<close>, \<^verbatim>\<open>OvmsMetricVector<float>\<close>)
  are collaborators with get/set semantics: a field holds what \<^verbatim>\<open>AsFloat\<close>, \<^verbatim>\<open>AsBool\<close>,
  \<^verbatim>\<open>AsVector\<close> return and what \<^verbatim>\<open>SetValue\<close> stores.
\<close>

record vehicle =
  m_bmsCache :: u8
  ms_v_bat_cell_vmin :: "real list"
  ms_v_bat_cell_vmax :: "real list"
  ms_v_bat_cell_tmin :: "real list"
  ms_v_bat_cell_tmax :: "real list"
  ms_v_bat_pack_vmin :: real
  ms_v_bat_pack_vmax :: real
  ms_v_bat_pack_tmin :: real
  ms_v_bat_pack_tmax :: real
  ms_v_bat_voltage :: real
  ms_v_bat_current :: real
  ms_v_bat_power :: real
  m_bat_pack_voltage :: real
  m_soc_raw :: real
  ms_v_bat_soc :: real
  ms_v_bat_range_ideal :: real
  ms_v_bat_temp :: real
  ms_v_bat_soh :: real
  ms_v_bat_range_est :: real
  ms_v_charge_inprogress :: bool
  ms_v_charge_type :: string
  ms_v_charge_state :: string
  ms_v_charge_current :: real
  ms_v_charge_power :: real
  ms_v_charge_climit :: real
  ms_v_charge_voltage :: real

text \<open>
  Modelled from the spec: \<^verbatim>\<open>OvmsMetricVector::SetElemValue\<close> belongs to the metrics store,
  whose code is not part of the source fragment. The spec gives the vector metrics a
  per-index write and an aggregate read of the full set of per-index values. The write is
  taken to behave as a \<^verbatim>\<open>std::vector\<close> does: a write at an index beyond the current size
  first grows the vector to \<open>n + 1\<close> elements, the new ones value-initialised (\<open>0\<close>), then
  element \<open>n\<close> is stored. \<^verbatim>\<open>AsVector\<close> returns the list itself.
\<close>

definition SetElemValue :: "nat \<Rightarrow> real \<Rightarrow> real list \<Rightarrow> real list" where
  "SetElemValue n nvalue m_value =
     (if length m_value < n + 1
      then m_value @ replicate (n + 1 - length m_value) 0
      else m_value)[n := nvalue]"

text \<open>
  \<^verbatim>\<open>*std::min_element(first, last)\<close> and \<^verbatim>\<open>*std::max_element(first, last)\<close>: the scan of the
  standard algorithm, keeping the first smallest (largest) element. On an empty range the
  algorithm returns \<^verbatim>\<open>last\<close>, which cannot be dereferenced: \<open>None\<close>.
\<close>

fun min_element_from :: "real \<Rightarrow> real list \<Rightarrow> real" where
  "min_element_from smallest [] = smallest"
| "min_element_from smallest (x # xs) =
     min_element_from (if x < smallest then x else smallest) xs"

fun min_element :: "real list \<Rightarrow> real option" where
  "min_element [] = None"
| "min_element (x # xs) = Some (min_element_from x xs)"

fun max_element_from :: "real \<Rightarrow> real list \<Rightarrow> real" where
  "max_element_from largest [] = largest"
| "max_element_from largest (x # xs) =
     max_element_from (if largest < x then x else largest) xs"

fun max_element :: "real list \<Rightarrow> real option" where
  "max_element [] = None"
| "max_element (x # xs) = Some (max_element_from x xs)"

text \<open>The expression \<^verbatim>\<open>(hi << 8 | lo)\<close> on two bytes, converted to \<^verbatim>\<open>uint16_t\<close>.\<close>

definition be16 :: "u8 \<Rightarrow> u8 \<Rightarrow> u16" where
  "be16 hi lo = push_bit 8 (ucast hi) OR ucast lo"

subsection \<open>\<^verbatim>\<open>ProcessBatteryStats\<close>\<close>

text \<open>
  The block index is one of the literals \<open>0..8\<close> passed by \<^verbatim>\<open>IncomingBmsPoll\<close>, hence a
  natural number. The result is \<open>None\<close> where the source would dereference the end
  iterator of an empty vector.
\<close>

definition ProcessBatteryStats :: "nat \<Rightarrow> (nat \<Rightarrow> u8) \<Rightarrow> u16 \<Rightarrow> vehicle \<Rightarrow> vehicle option" where
  "ProcessBatteryStats index data remain s =
     (if remain \<noteq> 0 then
        (let vmin = be16 (data 0) (data 1);
             s1 = s\<lparr>m_bmsCache := data 2\<rparr>;
             s2 = s1\<lparr>ms_v_bat_cell_vmin :=
                    SetElemValue index (real (unat vmin) / 2000 + 1) (ms_v_bat_cell_vmin s1)\<rparr>
         in case min_element (ms_v_bat_cell_vmin s2) of
              None \<Rightarrow> None
            | Some pvmin \<Rightarrow> Some (s2\<lparr>ms_v_bat_pack_vmin := pvmin\<rparr>))
      else
        (let vmax = be16 (m_bmsCache s) (data 0);
             tmin = data 1;
             tmax = data 2;
             s1 = s\<lparr>ms_v_bat_cell_vmax :=
                    SetElemValue index (real (unat vmax) / 2000 + 1) (ms_v_bat_cell_vmax s)\<rparr>;
             s2 = s1\<lparr>ms_v_bat_cell_tmin :=
                    SetElemValue index (real (unat tmin) * 0.5 - 40) (ms_v_bat_cell_tmin s1)\<rparr>;
             s3 = s2\<lparr>ms_v_bat_cell_tmax :=
                    SetElemValue index (real (unat tmax) * 0.5 - 40) (ms_v_bat_cell_tmax s2)\<rparr>
         in case max_element (ms_v_bat_cell_vmax s3) of
              None \<Rightarrow> None
            | Some pvmax \<Rightarrow>
                (let s4 = s3\<lparr>ms_v_bat_pack_vmax := pvmax\<rparr>
                 in case min_element (ms_v_bat_cell_tmin s4) of
                      None \<Rightarrow> None
                    | Some ptmin \<Rightarrow>
                        (let s5 = s4\<lparr>ms_v_bat_pack_tmin := ptmin\<rparr>
                         in case max_element (ms_v_bat_cell_tmax s5) of
                              None \<Rightarrow> None
                            | Some ptmax \<Rightarrow> Some (s5\<lparr>ms_v_bat_pack_tmax := ptmax\<rparr>)))))"

subsection \<open>\<^verbatim>\<open>SetBmsStatus\<close>\<close>

definition SetBmsStatus :: "u8 \<Rightarrow> vehicle \<Rightarrow> vehicle" where
  "SetBmsStatus status s =
     (if status = StartingCharge \<or> status = Charging then
        s\<lparr>ms_v_charge_inprogress := True, ms_v_charge_type := ''type2''\<rparr>
      else if status = CcsCharging then
        (let s1 = s\<lparr>ms_v_charge_inprogress := True\<rparr>;
             s2 = s1\<lparr>ms_v_charge_type := ''ccs''\<rparr>;
             s3 = s2\<lparr>ms_v_charge_current := - ms_v_bat_current s2\<rparr>;
             s4 = s3\<lparr>ms_v_charge_power := ms_v_bat_power s3\<rparr>;
             s5 = s4\<lparr>ms_v_charge_climit := 82\<rparr>
         in s5\<lparr>ms_v_charge_voltage := ms_v_bat_voltage s5\<rparr>)
      else if ms_v_charge_inprogress s then
        (let s1 = s\<lparr>ms_v_charge_type := ''not charging''\<rparr>
         in if ms_v_bat_soc s1 \<ge> 97.0
            then s1\<lparr>ms_v_charge_state := ''done'', ms_v_charge_inprogress := False\<rparr>
            else s1\<lparr>ms_v_charge_state := ''stopped'', ms_v_charge_inprogress := False\<rparr>)
      else s)"

subsection \<open>\<^verbatim>\<open>calculateSoc\<close>\<close>

text \<open>
  Modelled from the spec: the configuration store \<^verbatim>\<open>MyConfig\<close> is a collaborator that
  supplies named boolean parameters; \<^verbatim>\<open>GetParamValueBool(param, instance, default)\<close>
  returns the stored value, or the default when none is stored.
\<close>

type_synonym config = "string \<times> string \<rightharpoonup> bool"

definition GetParamValueBool :: "config \<Rightarrow> string \<Rightarrow> string \<Rightarrow> bool \<Rightarrow> bool" where
  "GetParamValueBool cfg param instance defvalue =
     (case cfg (param, instance) of None \<Rightarrow> defvalue | Some b \<Rightarrow> b)"

definition lowerlimit :: "config \<Rightarrow> int" where
  "lowerlimit MyConfig =
     (if GetParamValueBool MyConfig ''xmg'' ''updatedbmu'' True then 25 else 60)"

definition upperlimit :: "config \<Rightarrow> int" where
  "upperlimit MyConfig =
     (if GetParamValueBool MyConfig ''xmg'' ''updatedbmu'' True then 940 else 970)"

definition calculateSoc :: "config \<Rightarrow> u16 \<Rightarrow> real" where
  "calculateSoc MyConfig v =
     real_of_int (uint v - lowerlimit MyConfig) * 100
       / real_of_int (upperlimit MyConfig - lowerlimit MyConfig)"

subsection \<open>\<^verbatim>\<open>IncomingBmsPoll\<close>\<close>

text \<open>
  The PID constants of \<^verbatim>\<open>mg_obd_pids.h\<close> are not part of the source fragment: the
  dispatcher takes the table of the seventeen constants it names as a parameter. They are
  the labels of one \<^verbatim>\<open>switch\<close>, hence pairwise distinct (\<open>distinct (case_labels P)\<close>); the
  \<^verbatim>\<open>switch\<close> is the chain of comparisons in the order of its labels, and a PID it does not
  name falls through with the store unchanged. The local \<^verbatim>\<open>value\<close> is \<open>val\<close> and the
  unused parameter \<^verbatim>\<open>length\<close> is \<open>len\<close> here.
\<close>

record pid_table =
  cell1StatPid :: u16
  cell2StatPid :: u16
  cell3StatPid :: u16
  cell4StatPid :: u16
  cell5StatPid :: u16
  cell6StatPid :: u16
  cell7StatPid :: u16
  cell8StatPid :: u16
  cell9StatPid :: u16
  batteryBusVoltagePid :: u16
  batteryCurrentPid :: u16
  batteryVoltagePid :: u16
  batterySoCPid :: u16
  bmsStatusPid :: u16
  batteryCoolantTempPid :: u16
  batterySoHPid :: u16
  bmsRangePid :: u16

definition cell_stat_pids :: "pid_table \<Rightarrow> u16 list" where
  "cell_stat_pids P =
     [cell1StatPid P, cell2StatPid P, cell3StatPid P, cell4StatPid P, cell5StatPid P,
      cell6StatPid P, cell7StatPid P, cell8StatPid P, cell9StatPid P]"

definition case_labels :: "pid_table \<Rightarrow> u16 list" where
  "case_labels P =
     cell_stat_pids P @
     [batteryBusVoltagePid P, batteryCurrentPid P, batteryVoltagePid P, batterySoCPid P,
      bmsStatusPid P, batteryCoolantTempPid P, batterySoHPid P, bmsRangePid P]"

definition IncomingBmsPoll ::
  "pid_table \<Rightarrow> config \<Rightarrow> u16 \<Rightarrow> (nat \<Rightarrow> u8) \<Rightarrow> u8 \<Rightarrow> u16 \<Rightarrow> vehicle \<Rightarrow> vehicle option" where
  "IncomingBmsPoll P MyConfig pid data len remain s =
     (let val = be16 (data 0) (data 1) in
      if pid = cell1StatPid P then ProcessBatteryStats 0 data remain s
      else if pid = cell2StatPid P then ProcessBatteryStats 1 data remain s
      else if pid = cell3StatPid P then ProcessBatteryStats 2 data remain s
      else if pid = cell4StatPid P then ProcessBatteryStats 3 data remain s
      else if pid = cell5StatPid P then ProcessBatteryStats 4 data remain s
      else if pid = cell6StatPid P then ProcessBatteryStats 5 data remain s
      else if pid = cell7StatPid P then ProcessBatteryStats 6 data remain s
      else if pid = cell8StatPid P then ProcessBatteryStats 7 data remain s
      else if pid = cell9StatPid P then ProcessBatteryStats 8 data remain s
      else if pid = batteryBusVoltagePid P then
        (if val \<noteq> 0xfffe
         then Some (s\<lparr>ms_v_bat_voltage := real (unat val) * 0.25\<rparr>)
         else Some (s\<lparr>ms_v_bat_voltage := m_bat_pack_voltage s\<rparr>))
      else if pid = batteryCurrentPid P then
        (let current = (real_of_int (uint val - 40000) * 0.25) / 10.0;
             s1 = s\<lparr>ms_v_bat_current := current\<rparr>;
             power = ms_v_bat_voltage s1 * current;
             power = - power / 1000
         in Some (s1\<lparr>ms_v_bat_power := power\<rparr>))
      else if pid = batteryVoltagePid P then
        Some (s\<lparr>m_bat_pack_voltage := real (unat val) * 0.25\<rparr>)
      else if pid = batterySoCPid P then
        (let s1 = s\<lparr>m_soc_raw := real (unat val) / 10.0\<rparr>;
             scaledSoc = calculateSoc MyConfig val;
             s2 = (if ms_v_charge_inprogress s1
                   then (if scaledSoc < 99.5
                         then s1\<lparr>ms_v_charge_state := ''charging''\<rparr>
                         else s1\<lparr>ms_v_charge_state := ''topoff''\<rparr>)
                   else s1);
             s3 = s2\<lparr>ms_v_bat_soc := scaledSoc\<rparr>
         in Some (s3\<lparr>ms_v_bat_range_ideal := 262 * (scaledSoc / 100)\<rparr>))
      else if pid = bmsStatusPid P then Some (SetBmsStatus (data 0) s)
      else if pid = batteryCoolantTempPid P then
        Some (s\<lparr>ms_v_bat_temp := real (unat (data 0)) * 0.5 - 40.0\<rparr>)
      else if pid = batterySoHPid P then
        Some (s\<lparr>ms_v_bat_soh := real (unat val) / 100.0\<rparr>)
      else if pid = bmsRangePid P then
        Some (s\<lparr>ms_v_bat_range_est := real (unat val) / 10.0\<rparr>)
      else Some s)"

subsection \<open>Concrete inputs used for evaluation\<close>

text \<open>
  A store in which no metric has been set yet (vectors empty, numbers zero, flags false,
  strings empty), a PID table of seventeen distinct values, and two frames of block
  statistics.
\<close>

definition fresh_vehicle :: vehicle where
  "fresh_vehicle =
     \<lparr>m_bmsCache = 0,
      ms_v_bat_cell_vmin = [], ms_v_bat_cell_vmax = [],
      ms_v_bat_cell_tmin = [], ms_v_bat_cell_tmax = [],
      ms_v_bat_pack_vmin = 0, ms_v_bat_pack_vmax = 0,
      ms_v_bat_pack_tmin = 0, ms_v_bat_pack_tmax = 0,
      ms_v_bat_voltage = 0, ms_v_bat_current = 0, ms_v_bat_power = 0,
      m_bat_pack_voltage = 0, m_soc_raw = 0, ms_v_bat_soc = 0,
      ms_v_bat_range_ideal = 0, ms_v_bat_temp = 0, ms_v_bat_soh = 0,
      ms_v_bat_range_est = 0,
      ms_v_charge_inprogress = False, ms_v_charge_type = [], ms_v_charge_state = [],
      ms_v_charge_current = 0, ms_v_charge_power = 0, ms_v_charge_climit = 0,
      ms_v_charge_voltage = 0\<rparr>"

definition sample_pids :: pid_table where
  "sample_pids =
     \<lparr>cell1StatPid = 1, cell2StatPid = 2, cell3StatPid = 3, cell4StatPid = 4,
      cell5StatPid = 5, cell6StatPid = 6, cell7StatPid = 7, cell8StatPid = 8,
      cell9StatPid = 9, batteryBusVoltagePid = 10, batteryCurrentPid = 11,
      batteryVoltagePid = 12, batterySoCPid = 13, bmsStatusPid = 14,
      batteryCoolantTempPid = 15, batterySoHPid = 16, bmsRangePid = 17\<rparr>"

definition bytes :: "u8 list \<Rightarrow> nat \<Rightarrow> u8" where
  "bytes bs i = (if i < length bs then bs ! i else 0)"


section \<open>Properties\<close>

subsection \<open>Auxiliary facts: byte packing\<close>

lemma or_push8_nat:
  assumes "y < 256"
  shows "push_bit 8 (x::nat) OR y = 256 * x + y"
proof -
  have y: "take_bit 8 y = y"
    using assms by (simp add: take_bit_nat_eq_self_iff)
  have "push_bit 8 x AND take_bit 8 y = 0"
    by (simp add: bit_eq_iff bit_simps)
  then have "push_bit 8 x + take_bit 8 y = push_bit 8 x OR take_bit 8 y"
    by (rule disjunctive_add_eq_or)
  then show ?thesis
    using y by (simp add: push_bit_eq_mult)
qed

lemma unat_be16: "unat (be16 hi lo) = 256 * unat hi + unat lo"
proof -
  have hi: "unat hi < 256"
    using unsigned_less [of hi] by simp
  have lo: "unat lo < 256"
    using unsigned_less [of lo] by simp
  have "unat (be16 hi lo) = unat (push_bit 8 (ucast hi :: u16)) OR unat (ucast lo :: u16)"
    unfolding be16_def by (simp only: unsigned_or_eq)
  also have "unat (ucast lo :: u16) = unat lo"
    using lo by (simp add: unsigned_ucast_eq take_bit_nat_eq_self_iff)
  also have "unat (push_bit 8 (ucast hi :: u16)) = push_bit 8 (unat hi)"
  proof -
    have "unat (ucast hi :: u16) = unat hi"
      using hi by (simp add: unsigned_ucast_eq take_bit_nat_eq_self_iff)
    moreover have "push_bit 8 (unat hi) < (2::nat) ^ 16"
      using hi by (simp add: push_bit_eq_mult)
    ultimately show ?thesis
      by (simp add: unsigned_push_bit_eq take_bit_nat_eq_self_iff)
  qed
  finally show ?thesis
    using or_push8_nat [OF lo] by simp
qed

lemma real_be16: "(unsigned (be16 hi lo) :: real) = 256 * unsigned hi + unsigned lo"
proof -
  have "(unsigned (be16 hi lo) :: real) = real (unat (be16 hi lo))"
    by simp
  also have "\<dots> = real (256 * unat hi + unat lo)"
    by (simp only: unat_be16)
  finally show ?thesis
    by simp
qed

subsection \<open>Auxiliary facts: the vector metrics\<close>

lemma min_element_from_Min: "min_element_from m xs = Min (insert m (set xs))"
proof (induction xs arbitrary: m)
  case Nil
  show ?case by simp
next
  case (Cons x xs)
  have "Min (insert (if x < m then x else m) (set xs)) = Min (insert m (insert x (set xs)))"
    by (cases "set xs = {}") (auto simp: min_def Min_insert2 Min.insert_remove)
  then show ?case
    using Cons by simp
qed

lemma max_element_from_Max: "max_element_from m xs = Max (insert m (set xs))"
proof (induction xs arbitrary: m)
  case Nil
  show ?case by simp
next
  case (Cons x xs)
  have "Max (insert (if m < x then x else m) (set xs)) = Max (insert m (insert x (set xs)))"
    by (cases "set xs = {}") (auto simp: max_def Max.insert_remove)
  then show ?case
    using Cons by simp
qed

lemma min_element_Min: "xs \<noteq> [] \<Longrightarrow> min_element xs = Some (Min (set xs))"
  by (cases xs) (simp_all add: min_element_from_Min)

lemma max_element_Max: "xs \<noteq> [] \<Longrightarrow> max_element xs = Some (Max (set xs))"
  by (cases xs) (simp_all add: max_element_from_Max)

lemma SetElemValue_length: "n < length (SetElemValue n v xs)"
  by (simp add: SetElemValue_def)

lemma SetElemValue_nonempty: "SetElemValue n v xs \<noteq> []"
  using SetElemValue_length [of n v xs] by auto

lemma SetElemValue_nth: "SetElemValue n v xs ! n = v"
  by (simp add: SetElemValue_def)

lemma SetElemValue_idem: "SetElemValue n v (SetElemValue n v xs) = SetElemValue n v xs"
  by (simp add: SetElemValue_def)



subsection \<open>Auxiliary facts: closed forms of the two frame handlers\<close>

lemma ProcessBatteryStats_min_frame:
  assumes "remain \<noteq> 0"
  shows "ProcessBatteryStats index data remain s =
    Some (s\<lparr>m_bmsCache := data 2,
            ms_v_bat_cell_vmin :=
              SetElemValue index (real (unat (be16 (data 0) (data 1))) / 2000 + 1)
                (ms_v_bat_cell_vmin s),
            ms_v_bat_pack_vmin :=
              Min (set (SetElemValue index (real (unat (be16 (data 0) (data 1))) / 2000 + 1)
                (ms_v_bat_cell_vmin s)))\<rparr>)"
  using assms
  by (simp add: ProcessBatteryStats_def Let_def min_element_Min SetElemValue_nonempty)

lemma ProcessBatteryStats_max_frame:
  "ProcessBatteryStats index data 0 s =
    Some (s\<lparr>ms_v_bat_cell_vmax :=
              SetElemValue index (real (unat (be16 (m_bmsCache s) (data 0))) / 2000 + 1)
                (ms_v_bat_cell_vmax s),
            ms_v_bat_cell_tmin :=
              SetElemValue index (real (unat (data 1)) * 0.5 - 40) (ms_v_bat_cell_tmin s),
            ms_v_bat_cell_tmax :=
              SetElemValue index (real (unat (data 2)) * 0.5 - 40) (ms_v_bat_cell_tmax s),
            ms_v_bat_pack_vmax :=
              Max (set (SetElemValue index (real (unat (be16 (m_bmsCache s) (data 0))) / 2000 + 1)
                (ms_v_bat_cell_vmax s))),
            ms_v_bat_pack_tmin :=
              Min (set (SetElemValue index (real (unat (data 1)) * 0.5 - 40)
                (ms_v_bat_cell_tmin s))),
            ms_v_bat_pack_tmax :=
              Max (set (SetElemValue index (real (unat (data 2)) * 0.5 - 40)
                (ms_v_bat_cell_tmax s)))\<rparr>)"
  by (simp add: ProcessBatteryStats_def Let_def min_element_Min max_element_Max
      SetElemValue_nonempty)

lemma ProcessBatteryStats_cache:
  "\<exists>s'. ProcessBatteryStats index data remain s = Some s' \<and>
        m_bmsCache s' = (if remain \<noteq> 0 then data 2 else m_bmsCache s)"
  by (cases "remain = 0")
     (simp_all add: ProcessBatteryStats_min_frame ProcessBatteryStats_max_frame)

lemma ProcessBatteryStats_max_frame_twice:
  "\<exists>s1. ProcessBatteryStats index data 0 s = Some s1 \<and>
         m_bmsCache s1 = m_bmsCache s \<and>
         ProcessBatteryStats index data 0 s1 = Some s1"
  by (simp add: ProcessBatteryStats_max_frame SetElemValue_idem)

lemma SetBmsStatus_cache: "m_bmsCache (SetBmsStatus status s) = m_bmsCache s"
  by (simp add: SetBmsStatus_def Let_def)

subsection \<open>Auxiliary facts: the dispatch\<close>

lemma if_fun_memI:
  "(c \<Longrightarrow> a \<in> S) \<Longrightarrow> (\<not> c \<Longrightarrow> b \<in> S) \<Longrightarrow> (\<lambda>s. if c then a s else b s) \<in> S"
  by (cases c) simp_all

lemma IncomingBmsPoll_cell_index:
  assumes "pid \<in> set (cell_stat_pids P)"
  shows "\<exists>index. \<forall>s. IncomingBmsPoll P MyConfig pid data len remain s =
            ProcessBatteryStats index data remain s"
proof -
  have "(\<lambda>s. IncomingBmsPoll P MyConfig pid data len remain s)
           \<in> range (\<lambda>index. ProcessBatteryStats index data remain)"
    unfolding IncomingBmsPoll_def Let_def
    apply (intro if_fun_memI rangeI)
    using assms apply (simp_all add: cell_stat_pids_def)
    done
  then obtain index where
    "(\<lambda>s. IncomingBmsPoll P MyConfig pid data len remain s) =
       ProcessBatteryStats index data remain"
    by blast
  then have "\<forall>s. IncomingBmsPoll P MyConfig pid data len remain s =
            ProcessBatteryStats index data remain s"
    by (simp add: fun_eq_iff)
  then show ?thesis ..
qed

lemma IncomingBmsPoll_not_cell:
  assumes "pid \<notin> set (cell_stat_pids P)"
  shows "\<exists>s'. IncomingBmsPoll P MyConfig pid data len remain s = Some s' \<and>
              m_bmsCache s' = m_bmsCache s"
  using assms unfolding IncomingBmsPoll_def cell_stat_pids_def Let_def
  by (simp add: SetBmsStatus_cache)

lemma case_labels_neq:
  assumes "distinct (case_labels P)"
  shows "batteryBusVoltagePid P \<notin> set (cell_stat_pids P)"
    and "batteryCurrentPid P \<notin> set (cell_stat_pids P)"
    and "batterySoCPid P \<notin> set (cell_stat_pids P)"
    and "batteryCurrentPid P \<noteq> batteryBusVoltagePid P"
    and "batterySoCPid P \<noteq> batteryBusVoltagePid P"
    and "batterySoCPid P \<noteq> batteryCurrentPid P"
    and "batterySoCPid P \<noteq> batteryVoltagePid P"
  using assms by (auto simp: case_labels_def)

lemma distinct_sample_pids: "distinct (case_labels sample_pids)"
  by (simp add: case_labels_def cell_stat_pids_def sample_pids_def)

lemma SetElemValue_3_Nil: "SetElemValue 3 v [] = [0, 0, 0, v]"
  by (simp add: SetElemValue_def eval_nat_numeral)

lemma calculateSoc_940: "calculateSoc Map.empty (be16 0x03 0xAC) = 100"
  by (simp add: calculateSoc_def lowerlimit_def upperlimit_def GetParamValueBool_def real_be16)

lemma calculateSoc_208: "calculateSoc Map.empty (be16 0x00 0xD0) = 20"
  by (simp add: calculateSoc_def lowerlimit_def upperlimit_def GetParamValueBool_def real_be16)

subsection \<open>Block statistics: the two-frame decode\<close>

text \<open>
  C1. A frame with \<open>remain \<noteq> 0\<close> followed by a frame with \<open>remain = 0\<close> for the same
  block index: both calls return, the first caches \<open>data[2]\<close>, and afterwards the four
  cell vectors hold at that index
  \<^item> vmin: \<open>(data1[0] * 256 + data1[1]) / 2000 + 1\<close>,
  \<^item> vmax: \<open>(data1[2] * 256 + data2[0]) / 2000 + 1\<close> (the high byte is the cached one),
  \<^item> tmin: \<open>data2[1] * 0.5 - 40\<close>,
  \<^item> tmax: \<open>data2[2] * 0.5 - 40\<close>.
\<close>

theorem two_frame_decode:
  assumes "remain \<noteq> 0"
  shows "\<exists>s1 s2. ProcessBatteryStats index d1 remain s = Some s1
           \<and> ProcessBatteryStats index d2 0 s1 = Some s2
           \<and> m_bmsCache s1 = d1 2
           \<and> index < length (ms_v_bat_cell_vmin s2)
           \<and> index < length (ms_v_bat_cell_vmax s2)
           \<and> index < length (ms_v_bat_cell_tmin s2)
           \<and> index < length (ms_v_bat_cell_tmax s2)
           \<and> ms_v_bat_cell_vmin s2 ! index = real (256 * unat (d1 0) + unat (d1 1)) / 2000 + 1
           \<and> ms_v_bat_cell_vmax s2 ! index = real (256 * unat (d1 2) + unat (d2 0)) / 2000 + 1
           \<and> ms_v_bat_cell_tmin s2 ! index = real (unat (d2 1)) * 0.5 - 40
           \<and> ms_v_bat_cell_tmax s2 ! index = real (unat (d2 2)) * 0.5 - 40"
  by (simp add: ProcessBatteryStats_min_frame [OF assms] ProcessBatteryStats_max_frame
      SetElemValue_length SetElemValue_nth unat_be16)

text \<open>
  Block 3 on a fresh store: raw minimum \<open>0x1F40 = 8000\<close> (5 V), cached high byte \<open>0x20\<close>,
  raw maximum \<open>0x2008 = 8200\<close> (5.1 V), temperatures \<open>0x6E\<close> (15 C) and \<open>0x70\<close> (16 C).
\<close>

theorem two_frame_decode_witness:
  "(1 :: u16) \<noteq> 0 \<and>
   (\<exists>s1 s2. ProcessBatteryStats 3 (bytes [0x1F, 0x40, 0x20, 0]) 1 fresh_vehicle = Some s1
           \<and> ProcessBatteryStats 3 (bytes [0x08, 0x6E, 0x70, 0]) 0 s1 = Some s2
           \<and> m_bmsCache s1 = 0x20
           \<and> 3 < length (ms_v_bat_cell_vmin s2)
           \<and> 3 < length (ms_v_bat_cell_vmax s2)
           \<and> 3 < length (ms_v_bat_cell_tmin s2)
           \<and> 3 < length (ms_v_bat_cell_tmax s2)
           \<and> ms_v_bat_cell_vmin s2 ! 3 = 5
           \<and> ms_v_bat_cell_vmax s2 ! 3 = 5.1
           \<and> ms_v_bat_cell_tmin s2 ! 3 = 15
           \<and> ms_v_bat_cell_tmax s2 ! 3 = 16)"
proof -
  have h: "(1 :: u16) \<noteq> 0"
    by simp
  show ?thesis
    using h two_frame_decode [OF h, of 3 "bytes [0x1F, 0x40, 0x20, 0]" fresh_vehicle
        "bytes [0x08, 0x6E, 0x70, 0]"]
    by (simp add: bytes_def)
qed

subsection \<open>Block statistics: the pack extremes\<close>




subsection \<open>The charge state machine\<close>

text \<open>
  C3. For a status byte other than \<open>0x6\<close> (Charging), \<open>0x7\<close> (CcsCharging) and \<open>0xC\<close>
  (StartingCharge): if a charge is in progress, the charge type becomes "not charging",
  the charge state becomes "done" when the state of charge is at least 97 and "stopped"
  otherwise, and the in-progress flag is cleared; if no charge is in progress the store
  is returned unchanged.
\<close>

theorem SetBmsStatus_not_charging:
  assumes "status \<notin> {0x6, 0x7, 0xC}"
  shows "SetBmsStatus status s =
     (if ms_v_charge_inprogress s
      then s\<lparr>ms_v_charge_type := ''not charging'',
             ms_v_charge_state := (if ms_v_bat_soc s \<ge> 97.0 then ''done'' else ''stopped''),
             ms_v_charge_inprogress := False\<rparr>
      else s)"
  using assms
  by (simp add: SetBmsStatus_def Let_def StartingCharge_def Charging_def CcsCharging_def)

text \<open>
  Status \<open>0x1\<close> (Idle): in progress at 98 percent gives "done", in progress at 50 percent
  gives "stopped", not in progress changes nothing.
\<close>

theorem SetBmsStatus_not_charging_witness:
  "Idle \<notin> {0x6, 0x7, 0xC} \<and>
   SetBmsStatus Idle (fresh_vehicle\<lparr>ms_v_bat_soc := 98, ms_v_charge_inprogress := True\<rparr>)
     = fresh_vehicle\<lparr>ms_v_bat_soc := 98, ms_v_charge_inprogress := False,
         ms_v_charge_type := ''not charging'', ms_v_charge_state := ''done''\<rparr> \<and>
   SetBmsStatus Idle (fresh_vehicle\<lparr>ms_v_bat_soc := 50, ms_v_charge_inprogress := True\<rparr>)
     = fresh_vehicle\<lparr>ms_v_bat_soc := 50, ms_v_charge_inprogress := False,
         ms_v_charge_type := ''not charging'', ms_v_charge_state := ''stopped''\<rparr> \<and>
   SetBmsStatus Idle (fresh_vehicle\<lparr>ms_v_bat_soc := 98\<rparr>) = fresh_vehicle\<lparr>ms_v_bat_soc := 98\<rparr>"
proof -
  have h: "Idle \<notin> {0x6, 0x7, 0xC}"
    by (simp add: Idle_def)
  show ?thesis
    using h
      SetBmsStatus_not_charging [OF h,
        of "fresh_vehicle\<lparr>ms_v_bat_soc := 98, ms_v_charge_inprogress := True\<rparr>"]
      SetBmsStatus_not_charging [OF h,
        of "fresh_vehicle\<lparr>ms_v_bat_soc := 50, ms_v_charge_inprogress := True\<rparr>"]
      SetBmsStatus_not_charging [OF h, of "fresh_vehicle\<lparr>ms_v_bat_soc := 98\<rparr>"]
    by (simp add: fresh_vehicle_def)
qed

text \<open>
  C4. Status \<open>0x7\<close> (CcsCharging), from any store: the in-progress flag is set, the charge
  type is "ccs", the charge current is the negated battery current, the charge power and
  charge voltage are the battery power and battery voltage, the charge current limit is
  82; nothing else changes.
\<close>

theorem SetBmsStatus_ccs:
  "SetBmsStatus 0x7 s =
     s\<lparr>ms_v_charge_inprogress := True,
       ms_v_charge_type := ''ccs'',
       ms_v_charge_current := - ms_v_bat_current s,
       ms_v_charge_power := ms_v_bat_power s,
       ms_v_charge_climit := 82,
       ms_v_charge_voltage := ms_v_bat_voltage s\<rparr>"
  by (simp add: SetBmsStatus_def Let_def StartingCharge_def Charging_def CcsCharging_def)

subsection \<open>State-of-charge scaling\<close>

text \<open>
  C5. For every raw reading the scaled state of charge is
  \<open>(raw - lower) * 100 / (upper - lower)\<close>, with the window \<open>(25, 940)\<close> when the parameter
  \<^verbatim>\<open>xmg/updatedbmu\<close> reads true (also by default, when it is not stored) and \<open>(60, 970)\<close>
  when it reads false. The ends of each window map to 0 and 100, and nothing is clamped:
  raw 0 gives a negative percentage and raw 1000 one above 100, in both windows.
\<close>

theorem calculateSoc_linear:
  "calculateSoc MyConfig raw =
     (if GetParamValueBool MyConfig ''xmg'' ''updatedbmu'' True
      then (real (unat raw) - 25) * 100 / (940 - 25)
      else (real (unat raw) - 60) * 100 / (970 - 60))
   \<and> calculateSoc (MyConfig((''xmg'', ''updatedbmu'') \<mapsto> True)) 25 = 0
   \<and> calculateSoc (MyConfig((''xmg'', ''updatedbmu'') \<mapsto> True)) 940 = 100
   \<and> calculateSoc (MyConfig((''xmg'', ''updatedbmu'') \<mapsto> False)) 60 = 0
   \<and> calculateSoc (MyConfig((''xmg'', ''updatedbmu'') \<mapsto> False)) 970 = 100
   \<and> calculateSoc (MyConfig((''xmg'', ''updatedbmu'') := None)) 25 = 0
   \<and> calculateSoc (MyConfig((''xmg'', ''updatedbmu'') := None)) 940 = 100
   \<and> calculateSoc (MyConfig((''xmg'', ''updatedbmu'') \<mapsto> True)) 0 < 0
   \<and> calculateSoc (MyConfig((''xmg'', ''updatedbmu'') \<mapsto> True)) 1000 > 100
   \<and> calculateSoc (MyConfig((''xmg'', ''updatedbmu'') \<mapsto> False)) 0 < 0
   \<and> calculateSoc (MyConfig((''xmg'', ''updatedbmu'') \<mapsto> False)) 1000 > 100"
  by (simp add: calculateSoc_def lowerlimit_def upperlimit_def GetParamValueBool_def)

subsection \<open>Scalar frames\<close>

text \<open>
  C6. A bus-voltage frame: when the big-endian value of the first two bytes is \<open>0xFFFE\<close>
  the battery voltage becomes the current pack-voltage metric, for every other value it
  becomes a quarter of the value; nothing else changes.
\<close>

theorem bus_voltage_frame:
  assumes "distinct (case_labels P)"
  shows "IncomingBmsPoll P MyConfig (batteryBusVoltagePid P) data len remain s =
     Some (s\<lparr>ms_v_bat_voltage :=
        (if 256 * unat (data 0) + unat (data 1) = 0xFFFE then m_bat_pack_voltage s
         else real (256 * unat (data 0) + unat (data 1)) * 0.25)\<rparr>)"
  using case_labels_neq(1) [OF assms]
  by (simp add: IncomingBmsPoll_def cell_stat_pids_def Let_def unat_be16 real_be16
        word_eq_iff_unsigned [where ?'a = nat])

text \<open>
  With a pack voltage of 380 V: the bytes \<open>FF FE\<close> give 380 V (not \<open>65534 / 4\<close>), the
  bytes \<open>06 40\<close> (1600) give 400 V.
\<close>

theorem bus_voltage_frame_witness:
  "distinct (case_labels sample_pids) \<and>
   IncomingBmsPoll sample_pids Map.empty 10 (bytes [0xFF, 0xFE]) 2 0
       (fresh_vehicle\<lparr>m_bat_pack_voltage := 380\<rparr>)
     = Some (fresh_vehicle\<lparr>m_bat_pack_voltage := 380, ms_v_bat_voltage := 380\<rparr>) \<and>
   IncomingBmsPoll sample_pids Map.empty 10 (bytes [0x06, 0x40]) 2 0
       (fresh_vehicle\<lparr>m_bat_pack_voltage := 380\<rparr>)
     = Some (fresh_vehicle\<lparr>m_bat_pack_voltage := 380, ms_v_bat_voltage := 400\<rparr>)"
  using distinct_sample_pids
    bus_voltage_frame [OF distinct_sample_pids, of Map.empty "bytes [0xFF, 0xFE]" 2 0
      "fresh_vehicle\<lparr>m_bat_pack_voltage := 380\<rparr>"]
    bus_voltage_frame [OF distinct_sample_pids, of Map.empty "bytes [0x06, 0x40]" 2 0
      "fresh_vehicle\<lparr>m_bat_pack_voltage := 380\<rparr>"]
  by (simp add: bytes_def sample_pids_def)

text \<open>
  C7. A current frame with big-endian value \<open>raw\<close>: the battery current becomes
  \<open>((raw - 40000) * 0.25) / 10\<close>, a signed quantity, and the battery power becomes
  \<open>- (battery voltage * current) / 1000\<close>; nothing else changes. For \<open>raw = 40000\<close> both
  are 0, whatever the battery voltage.
\<close>

theorem current_frame:
  assumes "distinct (case_labels P)"
  shows "IncomingBmsPoll P MyConfig (batteryCurrentPid P) data len remain s =
     Some (s\<lparr>ms_v_bat_current :=
              (real_of_int (int (256 * unat (data 0) + unat (data 1)) - 40000) * 0.25) / 10,
            ms_v_bat_power :=
              - (ms_v_bat_voltage s *
                  ((real_of_int (int (256 * unat (data 0) + unat (data 1)) - 40000) * 0.25) / 10))
                / 1000\<rparr>)
    \<and> (256 * unat (data 0) + unat (data 1) = 40000 \<longrightarrow>
         IncomingBmsPoll P MyConfig (batteryCurrentPid P) data len remain s =
           Some (s\<lparr>ms_v_bat_current := 0, ms_v_bat_power := 0\<rparr>))"
proof -
  let ?raw = "256 * unat (data 0) + unat (data 1)"
  let ?current = "(real_of_int (int ?raw - 40000) * 0.25) / 10"
  have general: "IncomingBmsPoll P MyConfig (batteryCurrentPid P) data len remain s =
      Some (s\<lparr>ms_v_bat_current := ?current,
              ms_v_bat_power := - (ms_v_bat_voltage s * ?current) / 1000\<rparr>)"
    using case_labels_neq(2,4) [OF assms]
    by (simp add: IncomingBmsPoll_def cell_stat_pids_def Let_def real_be16)
  show ?thesis
  proof (intro conjI impI)
    show "IncomingBmsPoll P MyConfig (batteryCurrentPid P) data len remain s =
      Some (s\<lparr>ms_v_bat_current := ?current,
              ms_v_bat_power := - (ms_v_bat_voltage s * ?current) / 1000\<rparr>)"
      by (rule general)
  next
    assume raw: "?raw = 40000"
    have zero: "?current = 0"
      by (simp only: raw) simp
    show "IncomingBmsPoll P MyConfig (batteryCurrentPid P) data len remain s =
      Some (s\<lparr>ms_v_bat_current := 0, ms_v_bat_power := 0\<rparr>)"
      by (simp only: general zero) simp
  qed
qed

text \<open>
  At a battery voltage of 400 V: the bytes \<open>9C 40\<close> (40000) give 0 A and 0 kW, the bytes
  \<open>9B 78\<close> (39800) give -5 A and 2 kW.
\<close>

theorem current_frame_witness:
  "distinct (case_labels sample_pids) \<and>
   256 * unat (bytes [0x9C, 0x40] 0) + unat (bytes [0x9C, 0x40] 1) = 40000 \<and>
   IncomingBmsPoll sample_pids Map.empty 11 (bytes [0x9C, 0x40]) 2 0
       (fresh_vehicle\<lparr>ms_v_bat_voltage := 400\<rparr>)
     = Some (fresh_vehicle\<lparr>ms_v_bat_voltage := 400, ms_v_bat_current := 0,
               ms_v_bat_power := 0\<rparr>) \<and>
   IncomingBmsPoll sample_pids Map.empty 11 (bytes [0x9B, 0x78]) 2 0
       (fresh_vehicle\<lparr>ms_v_bat_voltage := 400\<rparr>)
     = Some (fresh_vehicle\<lparr>ms_v_bat_voltage := 400, ms_v_bat_current := -5,
               ms_v_bat_power := 2\<rparr>)"
  using distinct_sample_pids
    current_frame [OF distinct_sample_pids, of Map.empty "bytes [0x9C, 0x40]" 2 0
      "fresh_vehicle\<lparr>ms_v_bat_voltage := 400\<rparr>"]
    current_frame [OF distinct_sample_pids, of Map.empty "bytes [0x9B, 0x78]" 2 0
      "fresh_vehicle\<lparr>ms_v_bat_voltage := 400\<rparr>"]
  by (simp add: bytes_def sample_pids_def)

text \<open>
  C8. A state-of-charge frame with big-endian value \<open>raw\<close> and scaled value
  \<open>calculateSoc raw\<close>: the raw metric becomes \<open>raw / 10\<close>, the battery state of charge the
  scaled value, the ideal range \<open>262 * (scaled / 100)\<close>. The charge state becomes
  "charging" when a charge is in progress and the scaled value is below 99.5, "topoff"
  when a charge is in progress and it is not, and keeps its value when no charge is in
  progress. Nothing else changes.
\<close>

theorem soc_frame:
  assumes "distinct (case_labels P)"
  shows "IncomingBmsPoll P MyConfig (batterySoCPid P) data len remain s =
     Some (s\<lparr>m_soc_raw := real (256 * unat (data 0) + unat (data 1)) / 10,
            ms_v_charge_state :=
              (if ms_v_charge_inprogress s
               then (if calculateSoc MyConfig (be16 (data 0) (data 1)) < 99.5
                     then ''charging'' else ''topoff'')
               else ms_v_charge_state s),
            ms_v_bat_soc := calculateSoc MyConfig (be16 (data 0) (data 1)),
            ms_v_bat_range_ideal :=
              262 * (calculateSoc MyConfig (be16 (data 0) (data 1)) / 100)\<rparr>)"
  using case_labels_neq(3,5,6,7) [OF assms]
  by (simp add: IncomingBmsPoll_def cell_stat_pids_def Let_def real_be16)

text \<open>
  With the default window: the bytes \<open>03 AC\<close> (940) while charging give 94 raw, 100
  percent, "topoff" and 262 km; the bytes \<open>00 D0\<close> (208) give 20.8 raw, 20 percent and
  52.4 km, with "charging" while a charge is in progress and the old charge state
  otherwise.
\<close>

theorem soc_frame_witness:
  "distinct (case_labels sample_pids) \<and>
   IncomingBmsPoll sample_pids Map.empty 13 (bytes [0x03, 0xAC]) 2 0
       (fresh_vehicle\<lparr>ms_v_charge_inprogress := True\<rparr>)
     = Some (fresh_vehicle\<lparr>ms_v_charge_inprogress := True, m_soc_raw := 94,
               ms_v_charge_state := ''topoff'', ms_v_bat_soc := 100,
               ms_v_bat_range_ideal := 262\<rparr>) \<and>
   IncomingBmsPoll sample_pids Map.empty 13 (bytes [0x00, 0xD0]) 2 0
       (fresh_vehicle\<lparr>ms_v_charge_inprogress := True\<rparr>)
     = Some (fresh_vehicle\<lparr>ms_v_charge_inprogress := True, m_soc_raw := 20.8,
               ms_v_charge_state := ''charging'', ms_v_bat_soc := 20,
               ms_v_bat_range_ideal := 52.4\<rparr>) \<and>
   IncomingBmsPoll sample_pids Map.empty 13 (bytes [0x00, 0xD0]) 2 0
       (fresh_vehicle\<lparr>ms_v_charge_state := ''stopped''\<rparr>)
     = Some (fresh_vehicle\<lparr>ms_v_charge_state := ''stopped'', m_soc_raw := 20.8,
               ms_v_bat_soc := 20, ms_v_bat_range_ideal := 52.4\<rparr>)"
  using distinct_sample_pids
    soc_frame [OF distinct_sample_pids, of Map.empty "bytes [0x03, 0xAC]" 2 0
      "fresh_vehicle\<lparr>ms_v_charge_inprogress := True\<rparr>"]
    soc_frame [OF distinct_sample_pids, of Map.empty "bytes [0x00, 0xD0]" 2 0
      "fresh_vehicle\<lparr>ms_v_charge_inprogress := True\<rparr>"]
    soc_frame [OF distinct_sample_pids, of Map.empty "bytes [0x00, 0xD0]" 2 0
      "fresh_vehicle\<lparr>ms_v_charge_state := ''stopped''\<rparr>"]
  by (simp add: bytes_def sample_pids_def calculateSoc_940 calculateSoc_208 fresh_vehicle_def)

subsection \<open>The cross-frame cache\<close>

text \<open>
  C9. A max-frame (\<open>remain = 0\<close>) handled twice in succession: the first call returns a
  store with the cache byte untouched, and the second call, on that store with the same
  index and bytes, returns the very same store. The same holds when the frame is
  dispatched through \<^verbatim>\<open>IncomingBmsPoll\<close> under any of the nine cell-block PIDs.
\<close>

theorem max_frame_idempotent:
  "(\<exists>s1. ProcessBatteryStats index data 0 s = Some s1 \<and>
         m_bmsCache s1 = m_bmsCache s \<and>
         ProcessBatteryStats index data 0 s1 = Some s1) \<and>
   (pid \<in> set (cell_stat_pids P) \<longrightarrow>
     (\<exists>s1. IncomingBmsPoll P MyConfig pid data len 0 s = Some s1 \<and>
           m_bmsCache s1 = m_bmsCache s \<and>
           IncomingBmsPoll P MyConfig pid data len 0 s1 = Some s1))"
proof (intro conjI impI)
  show "\<exists>s1. ProcessBatteryStats index data 0 s = Some s1 \<and>
         m_bmsCache s1 = m_bmsCache s \<and>
         ProcessBatteryStats index data 0 s1 = Some s1"
    by (rule ProcessBatteryStats_max_frame_twice)
next
  assume cell: "pid \<in> set (cell_stat_pids P)"
  from IncomingBmsPoll_cell_index [OF cell, of MyConfig data len 0]
  obtain i where i: "\<And>s. IncomingBmsPoll P MyConfig pid data len 0 s =
      ProcessBatteryStats i data 0 s"
    by blast
  show "\<exists>s1. IncomingBmsPoll P MyConfig pid data len 0 s = Some s1 \<and>
           m_bmsCache s1 = m_bmsCache s \<and>
           IncomingBmsPoll P MyConfig pid data len 0 s1 = Some s1"
    unfolding i by (rule ProcessBatteryStats_max_frame_twice)
qed

text \<open>
  Block 3 (PID 4 of the sample table) with cache byte \<open>0x20\<close> and the bytes \<open>08 6E 70\<close>:
  the store after the first dispatch has the cell vectors \<open>[0, 0, 0, 5.1]\<close>,
  \<open>[0, 0, 0, 15]\<close>, \<open>[0, 0, 0, 16]\<close> and the pack values 5.1, 0 and 16, and the second
  dispatch returns it again.
\<close>

theorem max_frame_idempotent_witness:
  "4 \<in> set (cell_stat_pids sample_pids) \<and>
   (\<exists>s1. IncomingBmsPoll sample_pids Map.empty 4 (bytes [0x08, 0x6E, 0x70, 0]) 4 0
            (fresh_vehicle\<lparr>m_bmsCache := 0x20\<rparr>) = Some s1 \<and>
         m_bmsCache s1 = 0x20 \<and>
         s1 = fresh_vehicle\<lparr>m_bmsCache := 0x20,
                ms_v_bat_cell_vmax := [0, 0, 0, 5.1],
                ms_v_bat_cell_tmin := [0, 0, 0, 15],
                ms_v_bat_cell_tmax := [0, 0, 0, 16],
                ms_v_bat_pack_vmax := 5.1,
                ms_v_bat_pack_tmin := 0,
                ms_v_bat_pack_tmax := 16\<rparr> \<and>
         IncomingBmsPoll sample_pids Map.empty 4 (bytes [0x08, 0x6E, 0x70, 0]) 4 0 s1 = Some s1)"
proof -
  have h: "4 \<in> set (cell_stat_pids sample_pids)"
    by (simp add: cell_stat_pids_def sample_pids_def)
  have first: "IncomingBmsPoll sample_pids Map.empty 4 (bytes [0x08, 0x6E, 0x70, 0]) 4 0
            (fresh_vehicle\<lparr>m_bmsCache := 0x20\<rparr>) =
          Some (fresh_vehicle\<lparr>m_bmsCache := 0x20,
                ms_v_bat_cell_vmax := [0, 0, 0, 5.1],
                ms_v_bat_cell_tmin := [0, 0, 0, 15],
                ms_v_bat_cell_tmax := [0, 0, 0, 16],
                ms_v_bat_pack_vmax := 5.1,
                ms_v_bat_pack_tmin := 0,
                ms_v_bat_pack_tmax := 16\<rparr>)"
    by (simp add: IncomingBmsPoll_def sample_pids_def ProcessBatteryStats_max_frame
        SetElemValue_3_Nil bytes_def unat_be16 fresh_vehicle_def)
  from max_frame_idempotent [of 3 "bytes [0x08, 0x6E, 0x70, 0]"
      "fresh_vehicle\<lparr>m_bmsCache := 0x20\<rparr>" 4 sample_pids Map.empty 4] h
  obtain s1 where s1:
    "IncomingBmsPoll sample_pids Map.empty 4 (bytes [0x08, 0x6E, 0x70, 0]) 4 0
       (fresh_vehicle\<lparr>m_bmsCache := 0x20\<rparr>) = Some s1"
    "m_bmsCache s1 = m_bmsCache (fresh_vehicle\<lparr>m_bmsCache := 0x20\<rparr>)"
    "IncomingBmsPoll sample_pids Map.empty 4 (bytes [0x08, 0x6E, 0x70, 0]) 4 0 s1 = Some s1"
    by blast
  from s1(1) first have eq: "s1 = fresh_vehicle\<lparr>m_bmsCache := 0x20,
                ms_v_bat_cell_vmax := [0, 0, 0, 5.1],
                ms_v_bat_cell_tmin := [0, 0, 0, 15],
                ms_v_bat_cell_tmax := [0, 0, 0, 16],
                ms_v_bat_pack_vmax := 5.1,
                ms_v_bat_pack_tmin := 0,
                ms_v_bat_pack_tmax := 16\<rparr>"
    by simp
  from s1(2) have "m_bmsCache s1 = 0x20"
    by simp
  with h s1(1,3) eq show ?thesis
    by blast
qed

text \<open>
  C10. Every dispatch returns, and the cache byte afterwards is \<open>data[2]\<close> exactly when the
  PID is one of the nine cell-block PIDs and \<open>remain\<close> is not zero; after every other
  dispatch (a max-frame, a scalar PID, the status PID, a PID the switch does not name) it
  is the cache byte from before.
\<close>

theorem cache_frame:
  "\<exists>s'. IncomingBmsPoll P MyConfig pid data len remain s = Some s' \<and>
        m_bmsCache s' =
          (if pid \<in> set (cell_stat_pids P) \<and> remain \<noteq> 0 then data 2 else m_bmsCache s)"
proof (cases "pid \<in> set (cell_stat_pids P)")
  case True
  from IncomingBmsPoll_cell_index [OF True, of MyConfig data len remain]
  obtain i where
    "IncomingBmsPoll P MyConfig pid data len remain s = ProcessBatteryStats i data remain s"
    by blast
  then show ?thesis
    using True ProcessBatteryStats_cache [of i data remain s] by simp
next
  case False
  then show ?thesis
    using IncomingBmsPoll_not_cell [OF False, of MyConfig data len remain s] by simp
qed

end
